theory Spec2Isabelle
  imports Main
begin

section \<open>Data model\<close>

text \<open>
  The registry of typepki-oiddb is the class \<open>OIDDataBase\<close> of \<open>src/index.mts\<close>.
  Its five tables are plain JavaScript objects (\<open>Record<string, string> = {}\<close>) used as
  dictionaries. A table is modelled by the partial map of the properties it owns; the
  class only ever stores strings in it.
\<close>

type_synonym table = "string \<rightharpoonup> string"

text \<open>
  A plain object inherits the members of \<open>Object.prototype\<close>. The expression
  \<open>table[k]\<close> therefore has three outcomes: the string the table owns for \<open>k\<close>, the
  inherited member named \<open>k\<close> (a function, or the prototype object for \<open>__proto__\<close>),
  or \<open>undefined\<close>. The lookups are declared to return \<open>string\<close>, but they return what
  \<open>table[k]\<close> yields.
\<close>

datatype jsvalue = Undefined | Str string | Member string

text \<open>The member names of \<open>Object.prototype\<close> in ECMAScript.\<close>

definition object_prototype_members :: "string list" where
  "object_prototype_members =
     [''constructor'', ''hasOwnProperty'', ''isPrototypeOf'', ''propertyIsEnumerable'',
      ''toLocaleString'', ''toString'', ''valueOf'', ''__proto__'',
      ''__defineGetter__'', ''__defineSetter__'', ''__lookupGetter__'', ''__lookupSetter__'']"

definition inherited :: "string \<Rightarrow> bool" where
  "inherited k = (k \<in> set object_prototype_members)"

text \<open>\<open>table[k]\<close>: an own property shadows an inherited member.\<close>

definition table_get :: "table \<Rightarrow> string \<Rightarrow> jsvalue" where
  "table_get t k =
     (case t k of
        Some v \<Rightarrow> Str v
      | None \<Rightarrow> (if inherited k then Member k else Undefined))"

text \<open>\<open>k in table\<close>: true for own properties and for inherited members.\<close>

definition has_key :: "table \<Rightarrow> string \<Rightarrow> bool" where
  "has_key t k = (case t k of Some v \<Rightarrow> True | None \<Rightarrow> inherited k)"

text \<open>
  A value used as an index, \<open>table[v]\<close>, is converted to a property key. A string is its
  own key. The prototype object converts to \<open>[object Object]\<close>. An inherited function
  converts to the text of that builtin function, which the language leaves to the
  runtime: the text is the parameter \<open>txt\<close>, from the member name to the text.
\<close>

definition to_key :: "(string \<Rightarrow> string) \<Rightarrow> jsvalue \<Rightarrow> string" where
  "to_key txt v =
     (case v of
        Str s \<Rightarrow> s
      | Member m \<Rightarrow> (if m = ''__proto__'' then ''[object Object]'' else txt m)
      | Undefined \<Rightarrow> ''undefined'')"

text \<open>
  An \<open>OIDDataSet\<close> is an object literal. Its three records are enumerated with
  \<open>for (let k in record)\<close> and read with \<open>record[k]\<close>, so each is modelled as the list
  of its own (key, value) pairs in enumeration order; the keys of an object are distinct.
  The optional members \<open>shorttoname?\<close> and \<open>alias?\<close> are \<open>None\<close> when undefined.
\<close>

record OIDDataSet =
  ds_setname :: string
  ds_nametooid :: "(string \<times> string) list"
  ds_shorttoname :: "(string \<times> string) list option"
  ds_alias :: "(string \<times> string) list option"

record OIDDataBase =
  priv_uuid :: string
  dbOID2NAME :: table
  dbNAME2OID :: table
  dbSHORT2NAME :: table
  dbNAME2SHORT :: table
  dbALIAS :: table
  setlist :: "string list"

text \<open>The field initialisers of the class: what \<open>new OIDDataBase()\<close> builds.\<close>

definition new_OIDDataBase :: OIDDataBase where
  "new_OIDDataBase =
     \<lparr>priv_uuid = [], dbOID2NAME = Map.empty, dbNAME2OID = Map.empty,
      dbSHORT2NAME = Map.empty, dbNAME2SHORT = Map.empty, dbALIAS = Map.empty,
      setlist = []\<rparr>"

text \<open>The getter \<open>uuid\<close>.\<close>

definition uuid :: "OIDDataBase \<Rightarrow> string" where
  "uuid db = priv_uuid db"

section \<open>Lookups of \<open>src/index.mts\<close>\<close>

definition oidtoname :: "OIDDataBase \<Rightarrow> string \<Rightarrow> jsvalue" where
  "oidtoname db oid = table_get (dbOID2NAME db) oid"

definition nametooid :: "(string \<Rightarrow> string) \<Rightarrow> OIDDataBase \<Rightarrow> string \<Rightarrow> jsvalue" where
  "nametooid txt db name =
     (let name2 = (if table_get (dbALIAS db) name \<noteq> Undefined
                   then table_get (dbALIAS db) name else Str name)
      in table_get (dbNAME2OID db) (to_key txt name2))"

definition shorttoname :: "OIDDataBase \<Rightarrow> string \<Rightarrow> jsvalue" where
  "shorttoname db short = table_get (dbSHORT2NAME db) short"

definition nametoshort :: "OIDDataBase \<Rightarrow> string \<Rightarrow> jsvalue" where
  "nametoshort db name = table_get (dbNAME2SHORT db) name"

definition oidtoshort :: "(string \<Rightarrow> string) \<Rightarrow> OIDDataBase \<Rightarrow> string \<Rightarrow> jsvalue" where
  "oidtoshort txt db oid =
     (let name = table_get (dbOID2NAME db) oid in
      if name = Undefined then Str oid
      else
        let short = table_get (dbNAME2SHORT db) (to_key txt name) in
        if short = Undefined then name
        else short)"

definition shorttooid :: "(string \<Rightarrow> string) \<Rightarrow> OIDDataBase \<Rightarrow> string \<Rightarrow> jsvalue" where
  "shorttooid txt db short =
     (let name = table_get (dbSHORT2NAME db) short in
      if name = Undefined then name
      else table_get (dbNAME2OID db) (to_key txt name))"


section \<open>Lookups of the variant with the \<open>useUndef\<close> flag\<close>

text \<open>
  A second variant of the class in the repository gives four lookups an optional
  parameter \<open>useUndef?: boolean\<close>. The parameter is \<open>None\<close> when the caller leaves it
  out; \<open>(useUndef) ? undefined : x\<close> tests its truthiness.
\<close>

definition truthy :: "bool option \<Rightarrow> bool" where
  "truthy useUndef = (useUndef = Some True)"

definition oidtoname_useUndef :: "OIDDataBase \<Rightarrow> string \<Rightarrow> bool option \<Rightarrow> jsvalue" where
  "oidtoname_useUndef db oid useUndef =
     (let name = table_get (dbOID2NAME db) oid in
      if name \<noteq> Undefined then name
      else if truthy useUndef then Undefined else Str oid)"


definition nametoshort_useUndef :: "OIDDataBase \<Rightarrow> string \<Rightarrow> bool option \<Rightarrow> jsvalue" where
  "nametoshort_useUndef db name useUndef =
     (let short = table_get (dbNAME2SHORT db) name in
      if short \<noteq> Undefined then short
      else if truthy useUndef then Undefined else Str name)"


section \<open>Registration\<close>

text \<open>
  The three loops of \<open>registOne\<close>. Each assignment is guarded by its own
  \<open>if (! (k in table))\<close>; the second guard of a loop body reads the state the first
  assignment left.
\<close>

fun merge_nametooid :: "(string \<times> string) list \<Rightarrow> OIDDataBase \<Rightarrow> OIDDataBase" where
  "merge_nametooid [] db = db"
| "merge_nametooid ((name, oid) # rest) db =
     (let db1 = (if has_key (dbNAME2OID db) name then db
                 else db\<lparr>dbNAME2OID := (dbNAME2OID db)(name \<mapsto> oid)\<rparr>);
          db2 = (if has_key (dbOID2NAME db1) oid then db1
                 else db1\<lparr>dbOID2NAME := (dbOID2NAME db1)(oid \<mapsto> name)\<rparr>)
      in merge_nametooid rest db2)"

fun merge_shorttoname :: "(string \<times> string) list \<Rightarrow> OIDDataBase \<Rightarrow> OIDDataBase" where
  "merge_shorttoname [] db = db"
| "merge_shorttoname ((short, name) # rest) db =
     (let db1 = (if has_key (dbSHORT2NAME db) short then db
                 else db\<lparr>dbSHORT2NAME := (dbSHORT2NAME db)(short \<mapsto> name)\<rparr>);
          db2 = (if has_key (dbNAME2SHORT db1) name then db1
                 else db1\<lparr>dbNAME2SHORT := (dbNAME2SHORT db1)(name \<mapsto> short)\<rparr>)
      in merge_shorttoname rest db2)"

fun merge_alias :: "(string \<times> string) list \<Rightarrow> OIDDataBase \<Rightarrow> OIDDataBase" where
  "merge_alias [] db = db"
| "merge_alias ((alias, origin) # rest) db =
     (let db1 = (if has_key (dbALIAS db) alias then db
                 else db\<lparr>dbALIAS := (dbALIAS db)(alias \<mapsto> origin)\<rparr>)
      in merge_alias rest db1)"

definition registOne :: "OIDDataSet \<Rightarrow> OIDDataBase \<Rightarrow> OIDDataBase" where
  "registOne dataset db =
     (if ds_setname dataset \<in> set (setlist db) then db
      else
        let db1 = merge_nametooid (ds_nametooid dataset) db;
            db2 = (case ds_shorttoname dataset of
                     None \<Rightarrow> db1
                   | Some s2n \<Rightarrow> merge_shorttoname s2n db1);
            db3 = (case ds_alias dataset of
                     None \<Rightarrow> db2
                   | Some al \<Rightarrow> merge_alias al db2)
        in db3)"

text \<open>\<open>regist\<close>: \<open>datasetList.forEach\<close> calls \<open>registOne\<close> from left to right.\<close>

fun regist :: "OIDDataSet list \<Rightarrow> OIDDataBase \<Rightarrow> OIDDataBase" where
  "regist [] db = db"
| "regist (value # array) db = regist array (registOne value db)"

section \<open>The builtin data sets of \<open>src/index.mts\<close>\<close>

definition OIDSET_CRYPTO :: OIDDataSet where
  "OIDSET_CRYPTO =
     \<lparr>ds_setname = ''crypto'',
      ds_nametooid =
        [(''ecPublicKey'', ''1.2.840.10045.2.1''),
         (''prime256v1'', ''1.2.840.10045.3.1.7''),
         (''ecdsaWithSHA1'', ''1.2.840.10045.4.1''),
         (''ecdsaWithSHA224'', ''1.2.840.10045.4.3.1''),
         (''ecdsaWithSHA256'', ''1.2.840.10045.4.3.2''),
         (''ecdsaWithSHA384'', ''1.2.840.10045.4.3.3''),
         (''ecdsaWithSHA512'', ''1.2.840.10045.4.3.4''),
         (''rsaEncryption'', ''1.2.840.113549.1.1.1''),
         (''sha1WithRSAEncryption'', ''1.2.840.113549.1.1.5''),
         (''mgf1'', ''1.2.840.113549.1.1.8''),
         (''rsaPSS'', ''1.2.840.113549.1.1.10''),
         (''sha256WithRSAEncryption'', ''1.2.840.113549.1.1.11''),
         (''sha384WithRSAEncryption'', ''1.2.840.113549.1.1.12''),
         (''sha512WithRSAEncryption'', ''1.2.840.113549.1.1.13''),
         (''sha224WithRSAEncryption'', ''1.2.840.113549.1.1.14''),
         (''sha1'', ''1.3.14.3.2.26''),
         (''secp384r1'', ''1.3.132.0.34''),
         (''secp521r1'', ''1.3.132.0.35''),
         (''sha224'', ''2.16.840.1.101.3.4.2.4''),
         (''sha256'', ''2.16.840.1.101.3.4.2.1''),
         (''sha384'', ''2.16.840.1.101.3.4.2.2''),
         (''sha512'', ''2.16.840.1.101.3.4.2.3''),
         (''dsa'', ''1.2.840.10040.4.1''),
         (''SHA1withDSA'', ''1.2.840.10040.4.3''),
         (''SHA224withDSA'', ''2.16.840.1.101.3.4.3.1''),
         (''SHA256withDSA'', ''2.16.840.1.101.3.4.3.2'')],
      ds_shorttoname = None,
      ds_alias =
        Some [(''P-256'', ''prime256v1''),
              (''P-384'', ''secp384r1''),
              (''P-521'', ''secp521r1''),
              (''NIST P-256'', ''prime256v1''),
              (''NIST P-384'', ''secp384r1''),
              (''NIST P-521'', ''secp521r1''),
              (''secp256r1'', ''prime256v1'')]\<rparr>"

definition OIDSET_X509 :: OIDDataSet where
  "OIDSET_X509 =
     \<lparr>ds_setname = ''x509'',
      ds_nametooid =
        [(''commonName'', ''2.5.4.3''),
         (''countryName'', ''2.5.4.6''),
         (''organizationName'', ''2.5.4.10''),
         (''organizationIdentifier'', ''2.5.4.97''),
         (''subjectKeyIdentifier'', ''2.5.29.14''),
         (''keyUsage'', ''2.5.29.15''),
         (''subjectAltName'', ''2.5.29.17''),
         (''basicConstraints'', ''2.5.29.19''),
         (''certificatePolicies'', ''2.5.29.32''),
         (''authorityKeyIdentifier'', ''2.5.29.35''),
         (''extKeyUsage'', ''2.5.29.37''),
         (''authorityInfoAccess'', ''1.3.6.1.5.5.7.1.1''),
         (''serverAuth'', ''1.3.6.1.5.5.7.3.1''),
         (''clientAuth'', ''1.3.6.1.5.5.7.3.2''),
         (''ocsp'', ''1.3.6.1.5.5.7.48.1''),
         (''caIssuers'', ''1.3.6.1.5.5.7.48.2''),
         (''extendedValidationCertificates'', ''1.3.6.1.4.1.11129.2.4.2''),
         (''cabfBrDomainValidated'', ''2.23.140.1.2.1'')],
      ds_shorttoname =
        Some [(''CN'', ''commonName''),
              (''OU'', ''organizationName''),
              (''C'', ''countryName'')],
      ds_alias = None\<rparr>"

section \<open>The singleton and the calls a program can make\<close>

text \<open>
  The static member \<open>_instance\<close> is \<open>None\<close> until the getter \<open>instance\<close> runs for
  the first time. The getter then builds the object and stores the result of
  \<open>crypto.randomUUID()\<close> in it; that result is the parameter \<open>fresh\<close>. The constructor
  is private, so every object a caller holds is the one stored in \<open>_instance\<close>.
\<close>

type_synonym process = "OIDDataBase option"

definition get_instance :: "string \<Rightarrow> process \<Rightarrow> OIDDataBase \<times> process" where
  "get_instance fresh p =
     (case p of
        None \<Rightarrow> (let i = new_OIDDataBase\<lparr>priv_uuid := fresh\<rparr> in (i, Some i))
      | Some i \<Rightarrow> (i, Some i))"

text \<open>
  The public members of the class, as calls on the shared object. The lookups and the
  getter \<open>uuid\<close> contain no assignment; \<open>regist\<close> updates the object in place.
\<close>

datatype call =
    Instance string
  | Uuid
  | Oidtoname string
  | Nametooid string
  | Shorttoname string
  | Nametoshort string
  | Oidtoshort string
  | Shorttooid string
  | Aliasto string
  | Regist "OIDDataSet list"

fun step :: "call \<Rightarrow> process \<Rightarrow> process" where
  "step (Instance fresh) p = snd (get_instance fresh p)"
| "step (Regist datasetList) p = map_option (regist datasetList) p"
| "step _ p = p"

fun run :: "call list \<Rightarrow> process \<Rightarrow> process" where
  "run [] p = p"
| "run (c # cs) p = run cs (step c p)"

section \<open>Data sets used in the examples\<close>

text \<open>The custom data set of the README, \<open>MYOIDSET\<close>.\<close>

definition MYOIDSET :: OIDDataSet where
  "MYOIDSET =
     \<lparr>ds_setname = ''myoid'',
      ds_nametooid =
        [(''my-oid-one'', ''1.2.3.4.5.1''),
         (''my-oid-two'', ''1.2.3.4.5.2'')],
      ds_shorttoname = None,
      ds_alias = None\<rparr>"

text \<open>A second data set offered under the same set name, with other content.\<close>

definition MYOIDSET_AGAIN :: OIDDataSet where
  "MYOIDSET_AGAIN =
     \<lparr>ds_setname = ''myoid'',
      ds_nametooid = [(''my-oid-three'', ''1.2.3.4.5.3'')],
      ds_shorttoname = None,
      ds_alias = None\<rparr>"

text \<open>
  A data set that redefines keys of the builtin sets: a name, an OID, a short name and an
  alias that \<open>OIDSET_CRYPTO\<close> and \<open>OIDSET_X509\<close> already define.
\<close>

definition CLASHSET :: OIDDataSet where
  "CLASHSET =
     \<lparr>ds_setname = ''clash'',
      ds_nametooid =
        [(''countryName'', ''9.9.9''),
         (''otherCountry'', ''2.5.4.6'')],
      ds_shorttoname =
        Some [(''C'', ''commonName''),
              (''CO'', ''countryName'')],
      ds_alias = Some [(''P-256'', ''secp384r1'')]\<rparr>"


text \<open>
  A data set whose keys are member names of \<open>Object.prototype\<close>, and an alias whose
  target is one.
\<close>

definition PROTOSET :: OIDDataSet where
  "PROTOSET =
     \<lparr>ds_setname = ''proto'',
      ds_nametooid = [(''toString'', ''1.2.3'')],
      ds_shorttoname = Some [(''valueOf'', ''toString'')],
      ds_alias = Some [(''foo'', ''constructor'')]\<rparr>"

text \<open>
  One runtime's text for the builtin functions, in the form V8 prints them. It is used
  in the examples only; the theorems hold for every text.
\<close>

definition native_code_text :: "string \<Rightarrow> string" where
  "native_code_text m =
     ''function '' @ (if m = ''constructor'' then ''Object'' else m) @ ''() { [native code] }''"

text \<open>The registry after \<open>oiddb.regist([OIDSET_CRYPTO, OIDSET_X509])\<close> on a new object.\<close>

definition builtin_db :: OIDDataBase where
  "builtin_db = regist [OIDSET_CRYPTO, OIDSET_X509] new_OIDDataBase"

section \<open>Notions used in the proofs\<close>

text \<open>The pairs of an optional record: none when the member is undefined.\<close>

definition entries :: "(string \<times> string) list option \<Rightarrow> (string \<times> string) list" where
  "entries r = (case r of None \<Rightarrow> [] | Some xs \<Rightarrow> xs)"

text \<open>The pairs a loop can store: those whose key is not an inherited member name.\<close>

definition storable :: "(string \<times> string) list \<Rightarrow> (string \<times> string) list" where
  "storable xs = filter (\<lambda>p. \<not> inherited (fst p)) xs"

text \<open>Every key of a table of \<open>db\<close> has the same value in \<open>db'\<close>.\<close>

definition keeps :: "OIDDataBase \<Rightarrow> OIDDataBase \<Rightarrow> bool" where
  "keeps db db' \<longleftrightarrow>
     dbOID2NAME db \<subseteq>\<^sub>m dbOID2NAME db' \<and> dbNAME2OID db \<subseteq>\<^sub>m dbNAME2OID db' \<and>
     dbSHORT2NAME db \<subseteq>\<^sub>m dbSHORT2NAME db' \<and> dbNAME2SHORT db \<subseteq>\<^sub>m dbNAME2SHORT db' \<and>
     dbALIAS db \<subseteq>\<^sub>m dbALIAS db'"

text \<open>Merging the data set changes nothing in the registry.\<close>

definition absorbed :: "OIDDataSet \<Rightarrow> OIDDataBase \<Rightarrow> bool" where
  "absorbed ds db \<longleftrightarrow> registOne ds db = db"

section \<open>Reading a table\<close>

lemma has_key_iff: "has_key t k \<longleftrightarrow> t k \<noteq> None \<or> inherited k"
  by (simp add: has_key_def split: option.splits)

lemma table_get_own: "t k = Some v \<Longrightarrow> table_get t k = Str v"
  by (simp add: table_get_def)

lemma table_get_Undefined_iff: "table_get t k = Undefined \<longleftrightarrow> \<not> has_key t k"
  by (simp add: table_get_def has_key_def split: option.splits)

lemma table_get_inherited: "t k = None \<Longrightarrow> inherited k \<Longrightarrow> table_get t k = Member k"
  by (simp add: table_get_def)

section \<open>The tables after a merge\<close>

text \<open>
  Each loop of \<open>registOne\<close> adds to a table the first pair the data set has for every key
  that is not yet in the table: the table becomes \<open>map_of (storable pairs) ++ table\<close>.
  A key that is an inherited member name is in every table, so its pair is never stored.
\<close>

lemma map_of_storable: "\<not> inherited k \<Longrightarrow> map_of (storable xs) k = map_of xs k"
  by (induction xs) (auto simp: storable_def)

lemma map_of_storable_inherited: "inherited k \<Longrightarrow> map_of (storable xs) k = None"
  by (induction xs) (auto simp: storable_def)

lemma storable_Cons:
  "storable ((k, v) # xs) = (if inherited k then storable xs else (k, v) # storable xs)"
  by (simp add: storable_def)

lemma merge_nametooid_tables:
  "merge_nametooid xs db =
     db\<lparr>dbOID2NAME := map_of (storable (map prod.swap xs)) ++ dbOID2NAME db,
        dbNAME2OID := map_of (storable xs) ++ dbNAME2OID db\<rparr>"
proof (induction xs arbitrary: db)
  case Nil
  show ?case by (simp add: storable_def)
next
  case (Cons p rest)
  obtain name oid where p: "p = (name, oid)" by (cases p)
  show ?case
    unfolding p
    by (auto simp: Cons.IH Let_def has_key_iff storable_Cons map_add_def fun_eq_iff
             split: option.splits)
qed

lemma merge_shorttoname_tables:
  "merge_shorttoname xs db =
     db\<lparr>dbSHORT2NAME := map_of (storable xs) ++ dbSHORT2NAME db,
        dbNAME2SHORT := map_of (storable (map prod.swap xs)) ++ dbNAME2SHORT db\<rparr>"
proof (induction xs arbitrary: db)
  case Nil
  show ?case by (simp add: storable_def)
next
  case (Cons p rest)
  obtain short name where p: "p = (short, name)" by (cases p)
  show ?case
    unfolding p
    by (auto simp: Cons.IH Let_def has_key_iff storable_Cons map_add_def fun_eq_iff
             split: option.splits)
qed

lemma merge_alias_tables:
  "merge_alias xs db = db\<lparr>dbALIAS := map_of (storable xs) ++ dbALIAS db\<rparr>"
proof (induction xs arbitrary: db)
  case Nil
  show ?case by (simp add: storable_def)
next
  case (Cons p rest)
  obtain al origin where p: "p = (al, origin)" by (cases p)
  show ?case
    unfolding p
    by (auto simp: Cons.IH Let_def has_key_iff storable_Cons map_add_def fun_eq_iff
             split: option.splits)
qed

lemma registOne_skip:
  "ds_setname ds \<in> set (setlist db) \<Longrightarrow> registOne ds db = db"
  by (simp add: registOne_def)

lemma registOne_tables:
  assumes "ds_setname ds \<notin> set (setlist db)"
  shows "registOne ds db =
     db\<lparr>dbOID2NAME := map_of (storable (map prod.swap (ds_nametooid ds))) ++ dbOID2NAME db,
        dbNAME2OID := map_of (storable (ds_nametooid ds)) ++ dbNAME2OID db,
        dbSHORT2NAME := map_of (storable (entries (ds_shorttoname ds))) ++ dbSHORT2NAME db,
        dbNAME2SHORT :=
          map_of (storable (map prod.swap (entries (ds_shorttoname ds)))) ++ dbNAME2SHORT db,
        dbALIAS := map_of (storable (entries (ds_alias ds))) ++ dbALIAS db\<rparr>"
  using assms
  by (simp add: registOne_def Let_def entries_def merge_nametooid_tables
        merge_shorttoname_tables merge_alias_tables storable_def split: option.splits)

lemma registOne_setlist: "setlist (registOne ds db) = setlist db"
  by (cases "ds_setname ds \<in> set (setlist db)") (simp_all add: registOne_skip registOne_tables)

lemma registOne_priv_uuid: "priv_uuid (registOne ds db) = priv_uuid db"
  by (cases "ds_setname ds \<in> set (setlist db)") (simp_all add: registOne_skip registOne_tables)

lemma regist_setlist: "setlist (regist dsl db) = setlist db"
  by (induction dsl arbitrary: db) (simp_all add: registOne_setlist)

lemma regist_priv_uuid: "priv_uuid (regist dsl db) = priv_uuid db"
  by (induction dsl arbitrary: db) (simp_all add: registOne_priv_uuid)

lemma regist_append: "regist (xs @ ys) db = regist ys (regist xs db)"
  by (induction xs arbitrary: db) simp_all

section \<open>Existing entries are kept\<close>

lemma keeps_refl: "keeps db db"
  by (simp add: keeps_def)

lemma keeps_trans: "keeps a b \<Longrightarrow> keeps b c \<Longrightarrow> keeps a c"
  unfolding keeps_def by (blast intro: map_le_trans)

lemma keeps_registOne: "keeps db (registOne ds db)"
  by (cases "ds_setname ds \<in> set (setlist db)")
     (simp_all add: registOne_skip registOne_tables keeps_def)

lemma keeps_regist: "keeps db (regist dsl db)"
proof (induction dsl arbitrary: db)
  case Nil
  show ?case by (simp add: keeps_refl)
next
  case (Cons d dsl)
  have "keeps db (registOne d db)" by (rule keeps_registOne)
  moreover have "keeps (registOne d db) (regist dsl (registOne d db))" by (rule Cons.IH)
  ultimately show ?case by (auto intro: keeps_trans)
qed

lemma map_le_present: "m \<subseteq>\<^sub>m m' \<Longrightarrow> m k \<noteq> None \<Longrightarrow> m' k = m k"
  by (auto simp: map_le_def dom_def)

section \<open>Registering again\<close>

lemma map_add_absorb: "a ++ m = m \<Longrightarrow> a ++ (b ++ m) = b ++ m"
proof (rule ext)
  fix k
  assume h: "a ++ m = m"
  have "(a ++ m) k = m k" by (simp add: h)
  then show "(a ++ (b ++ m)) k = (b ++ m) k"
    by (auto simp: map_add_def split: option.splits)
qed

lemma map_add_twice: "a ++ (a ++ m) = a ++ m"
  by (rule ext) (auto simp: map_add_def split: option.splits)

lemma absorbed_registOne_self: "absorbed ds (registOne ds db)"
proof (cases "ds_setname ds \<in> set (setlist db)")
  case True
  then show ?thesis by (simp add: absorbed_def registOne_skip)
next
  case False
  then have "ds_setname ds \<notin> set (setlist (registOne ds db))" by (simp add: registOne_setlist)
  then show ?thesis
    unfolding absorbed_def
    by (subst registOne_tables) (simp_all add: registOne_tables [OF False] map_add_twice del: map_add_assoc)
qed

lemma absorbed_registOne_other:
  assumes "absorbed ds db"
  shows "absorbed ds (registOne d db)"
proof (cases "ds_setname ds \<in> set (setlist db)")
  case True
  then show ?thesis by (simp add: absorbed_def registOne_skip registOne_setlist)
next
  case False
  note nds = False
  show ?thesis
  proof (cases "ds_setname d \<in> set (setlist db)")
    case True
    with assms show ?thesis by (simp add: registOne_skip)
  next
    case False
    have e: "registOne ds db = db" using assms by (simp add: absorbed_def)
    have t1: "map_of (storable (map prod.swap (ds_nametooid ds))) ++ dbOID2NAME db = dbOID2NAME db"
      using arg_cong [OF e, of dbOID2NAME] by (simp add: registOne_tables [OF nds])
    have t2: "map_of (storable (ds_nametooid ds)) ++ dbNAME2OID db = dbNAME2OID db"
      using arg_cong [OF e, of dbNAME2OID] by (simp add: registOne_tables [OF nds])
    have t3: "map_of (storable (entries (ds_shorttoname ds))) ++ dbSHORT2NAME db = dbSHORT2NAME db"
      using arg_cong [OF e, of dbSHORT2NAME] by (simp add: registOne_tables [OF nds])
    have t4: "map_of (storable (map prod.swap (entries (ds_shorttoname ds)))) ++ dbNAME2SHORT db
        = dbNAME2SHORT db"
      using arg_cong [OF e, of dbNAME2SHORT] by (simp add: registOne_tables [OF nds])
    have t5: "map_of (storable (entries (ds_alias ds))) ++ dbALIAS db = dbALIAS db"
      using arg_cong [OF e, of dbALIAS] by (simp add: registOne_tables [OF nds])
    have "ds_setname ds \<notin> set (setlist (registOne d db))"
      using nds by (simp add: registOne_setlist)
    then show ?thesis
      unfolding absorbed_def
      by (subst registOne_tables)
         (simp_all add: registOne_tables [OF False] map_add_absorb [OF t1] map_add_absorb [OF t2]
            map_add_absorb [OF t3] map_add_absorb [OF t4] map_add_absorb [OF t5]
            del: map_add_assoc)
  qed
qed

lemma absorbed_regist: "absorbed ds db \<Longrightarrow> absorbed ds (regist dsl db)"
  by (induction dsl arbitrary: db) (simp_all add: absorbed_registOne_other)

lemma regist_absorbs: "d \<in> set dsl \<Longrightarrow> absorbed d (regist dsl db)"
proof (induction dsl arbitrary: db)
  case Nil
  then show ?case by simp
next
  case (Cons x dsl)
  show ?case
  proof (cases "d = x")
    case True
    then show ?thesis
      by (simp add: absorbed_regist absorbed_registOne_self)
  next
    case False
    with Cons.prems have "d \<in> set dsl" by simp
    then show ?thesis by (simp add: Cons.IH)
  qed
qed

lemma regist_all_absorbed: "(\<And>d. d \<in> set dsl \<Longrightarrow> absorbed d db) \<Longrightarrow> regist dsl db = db"
proof (induction dsl arbitrary: db)
  case Nil
  show ?case by simp
next
  case (Cons x dsl)
  have x: "registOne x db = db" using Cons.prems [of x] by (simp add: absorbed_def)
  show ?case using Cons.IH [of db] Cons.prems by (simp add: x)
qed

text \<open>
  Claim C8. Calling \<open>regist\<close> a second time with the same list of data sets leaves the
  registry, all five tables included, as the first call left it.
\<close>

theorem regist_idempotent: "regist dsl (regist dsl db) = regist dsl db"
  by (rule regist_all_absorbed) (rule regist_absorbs)

text \<open>The theorem at the builtin sets on a new registry.\<close>

theorem regist_idempotent_witness:
  "regist [OIDSET_CRYPTO, OIDSET_X509] (regist [OIDSET_CRYPTO, OIDSET_X509] new_OIDDataBase)
     = regist [OIDSET_CRYPTO, OIDSET_X509] new_OIDDataBase"
  by (rule regist_idempotent)

section \<open>First writer wins\<close>

text \<open>
  Claim C2. A key that one of the five tables owns keeps its value under every
  registration that follows, whatever the data sets offer for it. The key may be owned
  before the call (\<open>pre = []\<close>) or have been written by the data sets \<open>pre\<close> that the
  same call merged before the data sets \<open>post\<close>. \<open>regist\<close> is a total function: no
  duplicate makes it fail.
\<close>

theorem regist_first_writer_wins:
  "(dbOID2NAME (regist pre db) oid \<noteq> None \<longrightarrow>
      dbOID2NAME (regist (pre @ post) db) oid = dbOID2NAME (regist pre db) oid) \<and>
   (dbNAME2OID (regist pre db) name \<noteq> None \<longrightarrow>
      dbNAME2OID (regist (pre @ post) db) name = dbNAME2OID (regist pre db) name) \<and>
   (dbSHORT2NAME (regist pre db) short \<noteq> None \<longrightarrow>
      dbSHORT2NAME (regist (pre @ post) db) short = dbSHORT2NAME (regist pre db) short) \<and>
   (dbNAME2SHORT (regist pre db) name' \<noteq> None \<longrightarrow>
      dbNAME2SHORT (regist (pre @ post) db) name' = dbNAME2SHORT (regist pre db) name') \<and>
   (dbALIAS (regist pre db) al \<noteq> None \<longrightarrow>
      dbALIAS (regist (pre @ post) db) al = dbALIAS (regist pre db) al)"
  using keeps_regist [of "regist pre db" post]
  by (simp add: keeps_def map_le_present regist_append)

text \<open>
  The theorem at the builtin sets followed in the same call by \<open>CLASHSET\<close>, which offers
  other values for the OID \<open>2.5.4.6\<close>, the name \<open>countryName\<close>, the short name \<open>C\<close> and
  the alias \<open>P-256\<close>.
\<close>

theorem regist_first_writer_wins_witness:
  "dbOID2NAME (regist [OIDSET_CRYPTO, OIDSET_X509] new_OIDDataBase) ''2.5.4.6''
     = Some ''countryName'' \<and>
   dbOID2NAME (regist ([OIDSET_CRYPTO, OIDSET_X509] @ [CLASHSET]) new_OIDDataBase) ''2.5.4.6''
     = Some ''countryName'' \<and>
   dbNAME2OID (regist [OIDSET_CRYPTO, OIDSET_X509] new_OIDDataBase) ''countryName''
     = Some ''2.5.4.6'' \<and>
   dbNAME2OID (regist ([OIDSET_CRYPTO, OIDSET_X509] @ [CLASHSET]) new_OIDDataBase) ''countryName''
     = Some ''2.5.4.6'' \<and>
   dbSHORT2NAME (regist [OIDSET_CRYPTO, OIDSET_X509] new_OIDDataBase) ''C''
     = Some ''countryName'' \<and>
   dbSHORT2NAME (regist ([OIDSET_CRYPTO, OIDSET_X509] @ [CLASHSET]) new_OIDDataBase) ''C''
     = Some ''countryName'' \<and>
   dbNAME2SHORT (regist [OIDSET_CRYPTO, OIDSET_X509] new_OIDDataBase) ''countryName''
     = Some ''C'' \<and>
   dbNAME2SHORT (regist ([OIDSET_CRYPTO, OIDSET_X509] @ [CLASHSET]) new_OIDDataBase) ''countryName''
     = Some ''C'' \<and>
   dbALIAS (regist [OIDSET_CRYPTO, OIDSET_X509] new_OIDDataBase) ''P-256''
     = Some ''prime256v1'' \<and>
   dbALIAS (regist ([OIDSET_CRYPTO, OIDSET_X509] @ [CLASHSET]) new_OIDDataBase) ''P-256''
     = Some ''prime256v1''"
proof -
  let ?pre = "[OIDSET_CRYPTO, OIDSET_X509]"
  let ?db = "regist ?pre new_OIDDataBase"
  have h1: "dbOID2NAME ?db ''2.5.4.6'' = Some ''countryName''" by code_simp
  have h2: "dbNAME2OID ?db ''countryName'' = Some ''2.5.4.6''" by code_simp
  have h3: "dbSHORT2NAME ?db ''C'' = Some ''countryName''" by code_simp
  have h4: "dbNAME2SHORT ?db ''countryName'' = Some ''C''" by code_simp
  have h5: "dbALIAS ?db ''P-256'' = Some ''prime256v1''" by code_simp
  note t = regist_first_writer_wins [of ?pre new_OIDDataBase "''2.5.4.6''" "[CLASHSET]"
      "''countryName''" "''C''" "''countryName''" "''P-256''"]
  from t h1 have c1: "dbOID2NAME (regist (?pre @ [CLASHSET]) new_OIDDataBase) ''2.5.4.6''
      = Some ''countryName''"
    by (metis option.distinct(1))
  from t h2 have c2: "dbNAME2OID (regist (?pre @ [CLASHSET]) new_OIDDataBase) ''countryName''
      = Some ''2.5.4.6''"
    by (metis option.distinct(1))
  from t h3 have c3: "dbSHORT2NAME (regist (?pre @ [CLASHSET]) new_OIDDataBase) ''C''
      = Some ''countryName''"
    by (metis option.distinct(1))
  from t h4 have c4: "dbNAME2SHORT (regist (?pre @ [CLASHSET]) new_OIDDataBase) ''countryName''
      = Some ''C''"
    by (metis option.distinct(1))
  from t h5 have c5: "dbALIAS (regist (?pre @ [CLASHSET]) new_OIDDataBase) ''P-256''
      = Some ''prime256v1''"
    by (metis option.distinct(1))
  from h1 h2 h3 h4 h5 c1 c2 c3 c4 c5 show ?thesis by blast
qed

section \<open>Inherited member names\<close>

text \<open>
  What the prototype chain does to the registry, at \<open>PROTOSET\<close>. The pair
  \<open>(toString, 1.2.3)\<close> is not stored under the name, because \<open>"toString" in table\<close> is
  true, but it is stored under the OID. The lookups return the inherited member for a
  member name: \<open>oidtoname("constructor")\<close>, \<open>shorttoname("valueOf")\<close>, and
  \<open>nametooid("foo")\<close> for the alias \<open>foo\<close> of \<open>constructor\<close>.
\<close>

lemma inherited_member_names:
  "dbNAME2OID (regist [PROTOSET] new_OIDDataBase) ''toString'' = None \<and>
   dbOID2NAME (regist [PROTOSET] new_OIDDataBase) ''1.2.3'' = Some ''toString'' \<and>
   dbSHORT2NAME (regist [PROTOSET] new_OIDDataBase) ''valueOf'' = None \<and>
   nametooid native_code_text (regist [PROTOSET] new_OIDDataBase) ''toString'' = Undefined \<and>
   nametooid native_code_text (regist [PROTOSET] new_OIDDataBase) ''foo'' = Member ''constructor'' \<and>
   shorttoname (regist [PROTOSET] new_OIDDataBase) ''valueOf'' = Member ''valueOf'' \<and>
   oidtoname builtin_db ''constructor'' = Member ''constructor'' \<and>
   oidtoname_useUndef builtin_db ''constructor'' (Some True) = Member ''constructor'' \<and>
   oidtoshort native_code_text builtin_db ''constructor'' = Member ''constructor''"
  by code_simp

section \<open>Round trip between names and OIDs\<close>

lemma find_snd_map_of_swap:
  "find (\<lambda>p. snd p = v) xs = Some (k, v) \<Longrightarrow> map_of (map prod.swap xs) v = Some k"
  by (induction xs) (auto split: if_splits)

text \<open>
  Claim C3, as the code has it. Let a data set be merged (its set name is not in the set
  list), followed by any further data sets \<open>post\<close>, and let \<open>(name, oid)\<close> be a pair of
  its \<open>nametooid\<close> record. If \<open>name\<close> was not yet in the name table (\<open>name in table\<close>
  false) and is not in the alias table afterwards, then \<open>nametooid(name)\<close> returns
  \<open>oid\<close>. If \<open>oid\<close> was not yet in the OID table and \<open>name\<close> is the first name of the
  data set, in enumeration order, that has this OID, then \<open>oidtoname(oid)\<close> returns
  \<open>name\<close>, in both variants of the lookup.
\<close>

theorem regist_round_trip:
  assumes "ds_setname ds \<notin> set (setlist db)"
    and "(name, oid) \<in> set (ds_nametooid ds)"
    and "distinct (map fst (ds_nametooid ds))"
  shows "(\<not> has_key (dbNAME2OID db) name \<and>
            \<not> has_key (dbALIAS (regist (ds # post) db)) name \<longrightarrow>
          nametooid txt (regist (ds # post) db) name = Str oid) \<and>
         (\<not> has_key (dbOID2NAME db) oid \<and>
            find (\<lambda>p. snd p = oid) (ds_nametooid ds) = Some (name, oid) \<longrightarrow>
          oidtoname (regist (ds # post) db) oid = Str name \<and>
          oidtoname_useUndef (regist (ds # post) db) oid useUndef = Str name)"
proof -
  let ?db1 = "registOne ds db"
  let ?db2 = "regist (ds # post) db"
  note t = registOne_tables [OF assms(1)]
  have k: "keeps ?db1 ?db2" using keeps_regist [of ?db1 post] by simp
  have n: "map_of (ds_nametooid ds) name = Some oid"
    using assms(2,3) by simp
  have a: "nametooid txt ?db2 name = Str oid"
    if "\<not> has_key (dbNAME2OID db) name" "\<not> has_key (dbALIAS ?db2) name"
  proof -
    have "dbNAME2OID db name = None" "\<not> inherited name"
      using that(1) by (simp_all add: has_key_iff)
    then have "dbNAME2OID ?db1 name = Some oid"
      using n by (simp add: t map_add_def map_of_storable)
    moreover have "dbNAME2OID ?db1 \<subseteq>\<^sub>m dbNAME2OID ?db2"
      using k by (simp add: keeps_def)
    ultimately have "dbNAME2OID ?db2 name = Some oid"
      using map_le_present [of "dbNAME2OID ?db1" "dbNAME2OID ?db2" name] by simp
    then have g: "table_get (dbNAME2OID ?db2) name = Str oid"
      by (rule table_get_own)
    have u: "table_get (dbALIAS ?db2) name = Undefined"
      using that(2) by (simp add: table_get_Undefined_iff)
    show ?thesis
      unfolding nametooid_def Let_def u using g by (simp add: to_key_def)
  qed
  have b: "oidtoname ?db2 oid = Str name \<and> oidtoname_useUndef ?db2 oid useUndef = Str name"
    if "\<not> has_key (dbOID2NAME db) oid"
       "find (\<lambda>p. snd p = oid) (ds_nametooid ds) = Some (name, oid)"
  proof -
    have "dbOID2NAME db oid = None" "\<not> inherited oid"
      using that(1) by (simp_all add: has_key_iff)
    then have "dbOID2NAME ?db1 oid = Some name"
      using find_snd_map_of_swap [OF that(2)] by (simp add: t map_add_def map_of_storable)
    moreover have "dbOID2NAME ?db1 \<subseteq>\<^sub>m dbOID2NAME ?db2"
      using k by (simp add: keeps_def)
    ultimately have "dbOID2NAME ?db2 oid = Some name"
      using map_le_present [of "dbOID2NAME ?db1" "dbOID2NAME ?db2" oid] by simp
    then have "table_get (dbOID2NAME ?db2) oid = Str name"
      by (rule table_get_own)
    then show ?thesis
      by (simp add: oidtoname_def oidtoname_useUndef_def)
  qed
  from a b show ?thesis by blast
qed

text \<open>
  The theorem at \<open>keyUsage\<close> of \<open>OIDSET_X509\<close>, merged after \<open>OIDSET_CRYPTO\<close> and
  followed by \<open>CLASHSET\<close>.
\<close>

theorem regist_round_trip_witness:
  "ds_setname OIDSET_X509 \<notin> set (setlist (regist [OIDSET_CRYPTO] new_OIDDataBase)) \<and>
   (''keyUsage'', ''2.5.29.15'') \<in> set (ds_nametooid OIDSET_X509) \<and>
   distinct (map fst (ds_nametooid OIDSET_X509)) \<and>
   \<not> has_key (dbNAME2OID (regist [OIDSET_CRYPTO] new_OIDDataBase)) ''keyUsage'' \<and>
   \<not> has_key (dbALIAS (regist (OIDSET_X509 # [CLASHSET])
                  (regist [OIDSET_CRYPTO] new_OIDDataBase))) ''keyUsage'' \<and>
   \<not> has_key (dbOID2NAME (regist [OIDSET_CRYPTO] new_OIDDataBase)) ''2.5.29.15'' \<and>
   find (\<lambda>p. snd p = ''2.5.29.15'') (ds_nametooid OIDSET_X509)
     = Some (''keyUsage'', ''2.5.29.15'') \<and>
   nametooid native_code_text
     (regist (OIDSET_X509 # [CLASHSET]) (regist [OIDSET_CRYPTO] new_OIDDataBase)) ''keyUsage''
     = Str ''2.5.29.15'' \<and>
   oidtoname
     (regist (OIDSET_X509 # [CLASHSET]) (regist [OIDSET_CRYPTO] new_OIDDataBase)) ''2.5.29.15''
     = Str ''keyUsage''"
proof -
  let ?db = "regist [OIDSET_CRYPTO] new_OIDDataBase"
  let ?db2 = "regist (OIDSET_X509 # [CLASHSET]) ?db"
  have h1: "ds_setname OIDSET_X509 \<notin> set (setlist ?db)" by code_simp
  have h2: "(''keyUsage'', ''2.5.29.15'') \<in> set (ds_nametooid OIDSET_X509)" by code_simp
  have h3: "distinct (map fst (ds_nametooid OIDSET_X509))" by code_simp
  have h4: "\<not> has_key (dbNAME2OID ?db) ''keyUsage''" by code_simp
  have h5: "\<not> has_key (dbALIAS ?db2) ''keyUsage''" by code_simp
  have h6: "\<not> has_key (dbOID2NAME ?db) ''2.5.29.15''" by code_simp
  have h7: "find (\<lambda>p. snd p = ''2.5.29.15'') (ds_nametooid OIDSET_X509)
      = Some (''keyUsage'', ''2.5.29.15'')"
    by code_simp
  note t = regist_round_trip [OF h1 h2 h3, of "[CLASHSET]" native_code_text None]
  from t h4 h5 have c1: "nametooid native_code_text ?db2 ''keyUsage'' = Str ''2.5.29.15''"
    by blast
  from t h6 h7 have c2: "oidtoname ?db2 ''2.5.29.15'' = Str ''keyUsage''"
    by blast
  from h1 h2 h3 h4 h5 h6 h7 c1 c2 show ?thesis by blast
qed

text \<open>
  The round trip does not hold for every pair of a merged data set. \<open>CLASHSET\<close> is merged
  after the builtin sets; its pair \<open>(countryName, 9.9.9)\<close> loses against the OID that
  \<open>OIDSET_X509\<close> registered for the name, and its pair \<open>(otherCountry, 2.5.4.6)\<close> loses
  against the name that \<open>OIDSET_X509\<close> registered for the OID.
\<close>

theorem round_trip_counterexample:
  "(''countryName'', ''9.9.9'') \<in> set (ds_nametooid CLASHSET) \<and>
   nametooid native_code_text
     (regist [OIDSET_CRYPTO, OIDSET_X509, CLASHSET] new_OIDDataBase) ''countryName''
     = Str ''2.5.4.6'' \<and>
   (''otherCountry'', ''2.5.4.6'') \<in> set (ds_nametooid CLASHSET) \<and>
   oidtoname (regist [OIDSET_CRYPTO, OIDSET_X509, CLASHSET] new_OIDDataBase) ''2.5.4.6''
     = Str ''countryName''"
  by code_simp

section \<open>The set list\<close>

text \<open>
  Claim C1. The claim asks that the set name of a merged data set is recorded, so that a
  later data set with the same set name is skipped. \<open>registOne\<close> reads \<open>_setlist\<close> in its
  guard, and nothing in the class writes to it. After \<open>regist([MYOIDSET])\<close> the set list is
  still empty, and a second data set named \<open>myoid\<close> is merged: its name \<open>my-oid-three\<close>,
  unknown before, resolves afterwards.
\<close>

theorem registOne_never_records_setname:
  "setlist (regist [MYOIDSET] new_OIDDataBase) = [] \<and>
   ds_setname MYOIDSET_AGAIN = ds_setname MYOIDSET \<and>
   nametooid native_code_text (regist [MYOIDSET] new_OIDDataBase) ''my-oid-three''
     = Undefined \<and>
   nametooid native_code_text
     (regist [MYOIDSET_AGAIN] (regist [MYOIDSET] new_OIDDataBase)) ''my-oid-three''
     = Str ''1.2.3.4.5.3''"
  by code_simp

section \<open>The lookups\<close>

text \<open>
  Claim C4, as the code has it. For an OID that is not in the OID table (\<open>oid in table\<close>
  false), the variant of \<open>oidtoname\<close> with the flag \<open>useUndef\<close> returns the OID itself when
  the flag is left out or false and \<open>undefined\<close> when it is true; the variant of
  \<open>src/index.mts\<close> has no flag and returns \<open>undefined\<close>. For a registered OID both
  variants return the stored name, whatever the flag.
\<close>

theorem oidtoname_fallback:
  "(\<not> has_key (dbOID2NAME db) oid \<longrightarrow>
      oidtoname_useUndef db oid None = Str oid \<and>
      oidtoname_useUndef db oid (Some False) = Str oid \<and>
      oidtoname_useUndef db oid (Some True) = Undefined \<and>
      oidtoname db oid = Undefined) \<and>
   (dbOID2NAME db oid = Some name \<longrightarrow>
      oidtoname_useUndef db oid useUndef = Str name \<and>
      oidtoname db oid = Str name)"
proof -
  have a: "table_get (dbOID2NAME db) oid = Undefined" if "\<not> has_key (dbOID2NAME db) oid"
    using that by (simp add: table_get_Undefined_iff)
  have b: "table_get (dbOID2NAME db) oid = Str name" if "dbOID2NAME db oid = Some name"
    using that by (rule table_get_own)
  show ?thesis
    using a b by (auto simp: oidtoname_def oidtoname_useUndef_def truthy_def)
qed

text \<open>The theorem at the builtin sets: an unregistered OID and \<open>keyUsage\<close>.\<close>

theorem oidtoname_fallback_witness:
  "\<not> has_key (dbOID2NAME builtin_db) ''1.2.3.4'' \<and>
   oidtoname_useUndef builtin_db ''1.2.3.4'' None = Str ''1.2.3.4'' \<and>
   oidtoname_useUndef builtin_db ''1.2.3.4'' (Some True) = Undefined \<and>
   dbOID2NAME builtin_db ''2.5.29.15'' = Some ''keyUsage'' \<and>
   oidtoname_useUndef builtin_db ''2.5.29.15'' (Some True) = Str ''keyUsage'' \<and>
   oidtoname builtin_db ''2.5.29.15'' = Str ''keyUsage''"
proof -
  have h1: "\<not> has_key (dbOID2NAME builtin_db) ''1.2.3.4''" by code_simp
  have h2: "dbOID2NAME builtin_db ''2.5.29.15'' = Some ''keyUsage''" by code_simp
  from oidtoname_fallback [of builtin_db "''1.2.3.4''" "''keyUsage''" "Some True"] h1
  have c1: "oidtoname_useUndef builtin_db ''1.2.3.4'' None = Str ''1.2.3.4'' \<and>
            oidtoname_useUndef builtin_db ''1.2.3.4'' (Some True) = Undefined"
    by blast
  from oidtoname_fallback [of builtin_db "''2.5.29.15''" "''keyUsage''" "Some True"] h2
  have c2: "oidtoname_useUndef builtin_db ''2.5.29.15'' (Some True) = Str ''keyUsage'' \<and>
            oidtoname builtin_db ''2.5.29.15'' = Str ''keyUsage''"
    by blast
  from h1 h2 c1 c2 show ?thesis by blast
qed

text \<open>
  In \<open>src/index.mts\<close>, \<open>oidtoname("1.2.3.4")\<close> is \<open>undefined\<close>, not \<open>"1.2.3.4"\<close>, after
  the builtin sets are registered.
\<close>

theorem oidtoname_unregistered_counterexample:
  "dbOID2NAME builtin_db ''1.2.3.4'' = None \<and> oidtoname builtin_db ''1.2.3.4'' = Undefined"
  by code_simp





text \<open>
  Claim C7. The claim asks that \<open>nametoshort\<close> returns the name itself when the name has
  no short name. In \<open>src/index.mts\<close> the method returns the raw table entry:
  \<open>organizationIdentifier\<close> is registered by \<open>OIDSET_X509\<close> without a short name, and
  \<open>nametoshort\<close> returns \<open>undefined\<close> for it. The variant with the flag returns the
  name.
\<close>

theorem nametoshort_returns_undefined:
  "dbNAME2OID builtin_db ''organizationIdentifier'' = Some ''2.5.4.97'' \<and>
   dbNAME2SHORT builtin_db ''organizationIdentifier'' = None \<and>
   nametoshort builtin_db ''organizationIdentifier'' = Undefined \<and>
   nametoshort_useUndef builtin_db ''organizationIdentifier'' None
     = Str ''organizationIdentifier''"
  by code_simp

section \<open>Short names\<close>



section \<open>The uuid\<close>

lemma step_keeps_uuid:
  "\<exists>db'. step c (Some db) = Some db' \<and> priv_uuid db' = priv_uuid db"
  by (cases c) (simp_all add: get_instance_def regist_priv_uuid)

lemma run_keeps_uuid:
  "\<exists>db'. run cs (Some db) = Some db' \<and> priv_uuid db' = priv_uuid db"
proof (induction cs arbitrary: db)
  case Nil
  show ?case by simp
next
  case (Cons c cs)
  obtain db1 where s: "step c (Some db) = Some db1" and u: "priv_uuid db1 = priv_uuid db"
    using step_keeps_uuid by blast
  obtain db2 where r: "run cs (Some db1) = Some db2" and v: "priv_uuid db2 = priv_uuid db1"
    using Cons.IH by blast
  show ?case by (simp add: s r u v)
qed

text \<open>
  Claim C10. The first run of the getter \<open>instance\<close> stores the fresh UUID in the new
  object. Whatever calls follow (registrations, lookups, further runs of the getter, which
  would draw other UUIDs), the object that the getter returns has the UUID of the first
  run; \<open>regist\<close> leaves the UUID of its object as it is.
\<close>

theorem uuid_assigned_once:
  "uuid (fst (get_instance fresh None)) = fresh \<and>
   uuid (fst (get_instance other (run cs (snd (get_instance fresh None))))) = fresh \<and>
   uuid (regist datasetList db) = uuid db"
proof -
  let ?i = "new_OIDDataBase\<lparr>priv_uuid := fresh\<rparr>"
  have g: "get_instance fresh None = (?i, Some ?i)"
    by (simp add: get_instance_def Let_def)
  obtain db' where r: "run cs (Some ?i) = Some db'" and u: "priv_uuid db' = priv_uuid ?i"
    using run_keeps_uuid by blast
  have g': "get_instance other (Some db') = (db', Some db')"
    by (simp add: get_instance_def)
  show ?thesis
    by (simp add: g r g' u uuid_def regist_priv_uuid)
qed

text \<open>The theorem at a run that registers, asks for the instance again and looks up.\<close>

theorem uuid_assigned_once_witness:
  "uuid (fst (get_instance ''uuid-1'' None)) = ''uuid-1'' \<and>
   uuid (fst (get_instance ''uuid-3''
           (run [Regist [OIDSET_CRYPTO, OIDSET_X509], Instance ''uuid-2'', Oidtoname ''2.5.29.15'',
                 Regist [MYOIDSET]]
              (snd (get_instance ''uuid-1'' None))))) = ''uuid-1''"
  using uuid_assigned_once [of "''uuid-1''" "''uuid-3''"
      "[Regist [OIDSET_CRYPTO, OIDSET_X509], Instance ''uuid-2'', Oidtoname ''2.5.29.15'',
        Regist [MYOIDSET]]"]
  by blast

end
